theory Spec2Isabelle
  imports Complex_Main "HOL-Library.Log_Nat"
begin

section \<open>JavaScript values as the handlers see them\<close>

subsection \<open>Numbers\<close>

text \<open>
  A JavaScript number is an IEEE-754 binary64 value. A finite one is kept as the rational
  it denotes; the two zeros are one value \<open>Fin 0\<close>, which this program cannot tell apart
  (both are falsy, both are \<open>\<le> 0\<close>, and neither reaches the multiplication).
\<close>

datatype jsnum = NaN | PosInf | NegInf | Fin rat

definition pow2 :: "int \<Rightarrow> rat" where
  "pow2 e = (if 0 \<le> e then 2 ^ nat e else 1 / 2 ^ nat (- e))"

text \<open>\<open>ilog2 q\<close> is the binary exponent of a positive rational: \<open>2^e \<le> q < 2^(e+1)\<close>.\<close>

definition ilog2 :: "rat \<Rightarrow> int" where
  "ilog2 q = (if 1 \<le> q then int (floorlog 2 (nat \<lfloor>q\<rfloor>)) - 1
              else - int (floorlog 2 (nat (\<lceil>1 / q\<rceil> - 1))))"

definition round_half_even :: "rat \<Rightarrow> int" where
  "round_half_even x =
     (let f = \<lfloor>x\<rfloor>; d = x - of_int f
      in if d < 1 / 2 then f else if 1 / 2 < d then f + 1 else if even f then f else f + 1)"

text \<open>
  \<open>fl x\<close> rounds the exact result \<open>x\<close> of an arithmetic operation to binary64: to the
  nearest value with a 53-bit significand, ties to even, with gradual underflow below
  \<open>2^-1022\<close> and overflow to an infinity from \<open>2^1024\<close> on.
\<close>

definition fl :: "rat \<Rightarrow> jsnum" where
  "fl x =
     (if x = 0 then Fin 0
      else let a = \<bar>x\<bar>;
               e = max (ilog2 a) (- 1022);
               ulp = pow2 (e - 52);
               m = round_half_even (a / ulp)
           in if 1023 < e \<or> (e = 1023 \<and> 2 ^ 53 \<le> m)
              then (if 0 < x then PosInf else NegInf)
              else Fin (sgn x * (of_int m * ulp)))"

fun is_negative :: "jsnum \<Rightarrow> bool" where
  "is_negative NegInf = True"
| "is_negative (Fin x) = (x < 0)"
| "is_negative _ = False"

text \<open>The operator \<open>*\<close> on numbers.\<close>

fun js_mul :: "jsnum \<Rightarrow> jsnum \<Rightarrow> jsnum" where
  "js_mul (Fin x) (Fin y) = fl (x * y)"
| "js_mul a b =
     (if a = NaN \<or> b = NaN \<or> a = Fin 0 \<or> b = Fin 0 then NaN
      else if is_negative a = is_negative b then PosInf else NegInf)"

text \<open>The operator \<open><=\<close> on numbers: false as soon as one side is \<open>NaN\<close>.\<close>

fun js_le :: "jsnum \<Rightarrow> jsnum \<Rightarrow> bool" where
  "js_le NaN _ = False"
| "js_le _ NaN = False"
| "js_le NegInf _ = True"
| "js_le _ PosInf = True"
| "js_le PosInf _ = False"
| "js_le _ NegInf = False"
| "js_le (Fin x) (Fin y) = (x \<le> y)"

text \<open>The operator \<open>>\<close> on numbers, used to state what the validation lets through.\<close>

fun js_gt :: "jsnum \<Rightarrow> jsnum \<Rightarrow> bool" where
  "js_gt NaN _ = False"
| "js_gt _ NaN = False"
| "js_gt NegInf _ = False"
| "js_gt _ PosInf = False"
| "js_gt PosInf _ = True"
| "js_gt _ NegInf = True"
| "js_gt (Fin x) (Fin y) = (y < x)"

subsection \<open>Values\<close>

text \<open>
  The values a parsed request body, a session or a gateway answer can hold: the JSON
  values, and \<open>undefined\<close> for what is absent. An object is the list of its own
  properties; a property is read from the first entry with its name.
\<close>

datatype jsval =
    JUndefined
  | JNull
  | JBool bool
  | JNum jsnum
  | JStr string
  | JArr "jsval list"
  | JObj "(string \<times> jsval) list"

text \<open>What can be thrown inside a handler.\<close>

datatype js_error =
    CannotReadProperty string
  | CannotConvertToPrimitive
  | InvalidKeyArgument
  | Rejected jsval

text \<open>Truthiness (\<open>!x\<close> is its negation).\<close>

fun truthy :: "jsval \<Rightarrow> bool" where
  "truthy JUndefined = False"
| "truthy JNull = False"
| "truthy (JBool b) = b"
| "truthy (JNum n) = (n \<noteq> NaN \<and> n \<noteq> Fin 0)"
| "truthy (JStr s) = (s \<noteq> [])"
| "truthy (JArr xs) = True"
| "truthy (JObj kvs) = True"

text \<open>
  What the program leaves to its platform: the two conversions between numbers and
  strings that the language defines, the text the engine gives a thrown error (or the
  \<open>message\<close> a rejection carries), the keyed hash of the crypto library, the payment
  gateway's order creation (\<open>Inl\<close> the \<open>message\<close> of the rejection, \<open>Inr\<close> the order),
  the clock and the process environment.
\<close>

record platform =
  number_to_string :: "jsnum \<Rightarrow> string"
  string_to_number :: "string \<Rightarrow> jsnum"
  error_message :: "js_error \<Rightarrow> jsval"
  hmac_sha256_hex :: "string \<Rightarrow> string \<Rightarrow> string"
  orders_create :: "jsval \<Rightarrow> jsval + jsval"
  date_now :: jsnum
  process_env :: "string \<Rightarrow> string option"

text \<open>
  Conversion to a string, as string concatenation, a template literal and
  \<open>Array.prototype.join\<close> do it. An array joins its elements with commas, \<open>undefined\<close>
  and \<open>null\<close> elements giving the empty string. An object built from JSON has no
  callable \<open>toString\<close> of its own: with an own property of that name the conversion
  throws, without one the inherited method answers \<open>[object Object]\<close>.
\<close>

fun to_string :: "(jsnum \<Rightarrow> string) \<Rightarrow> jsval \<Rightarrow> js_error + string"
  and join_elements :: "(jsnum \<Rightarrow> string) \<Rightarrow> jsval list \<Rightarrow> js_error + string" where
  "to_string n2s JUndefined = Inr ''undefined''"
| "to_string n2s JNull = Inr ''null''"
| "to_string n2s (JBool b) = Inr (if b then ''true'' else ''false'')"
| "to_string n2s (JNum n) = Inr (n2s n)"
| "to_string n2s (JStr s) = Inr s"
| "to_string n2s (JArr xs) = join_elements n2s xs"
| "to_string n2s (JObj kvs) =
     (if ''toString'' \<in> fst ` set kvs then Inl CannotConvertToPrimitive
      else Inr ''[object Object]'')"
| "join_elements n2s [] = Inr []"
| "join_elements n2s (x # xs) =
     (case (if x = JUndefined \<or> x = JNull then Inr [] else to_string n2s x) of
        Inl e \<Rightarrow> Inl e
      | Inr s \<Rightarrow>
          (if xs = [] then Inr s
           else case join_elements n2s xs of
                  Inl e \<Rightarrow> Inl e
                | Inr r \<Rightarrow> Inr (s @ '','' @ r)))"

text \<open>Conversion to a number, as \<open><=\<close> and \<open>*\<close> do it (objects go through their string).\<close>

fun to_number :: "platform \<Rightarrow> jsval \<Rightarrow> js_error + jsnum" where
  "to_number P JUndefined = Inr NaN"
| "to_number P JNull = Inr (Fin 0)"
| "to_number P (JBool b) = Inr (if b then Fin 1 else Fin 0)"
| "to_number P (JNum n) = Inr n"
| "to_number P (JStr s) = Inr (string_to_number P s)"
| "to_number P v =
     (case to_string (number_to_string P) v of
        Inl e \<Rightarrow> Inl e
      | Inr s \<Rightarrow> Inr (string_to_number P s))"

text \<open>
  Reading a property \<open>v.k\<close> (also by destructuring). Only the names the handlers read are
  meant: none of them is defined on a prototype, so a value other than an object with
  that own property answers \<open>undefined\<close>, and \<open>undefined\<close> and \<open>null\<close> throw.
\<close>

fun get_field :: "jsval \<Rightarrow> string \<Rightarrow> js_error + jsval" where
  "get_field JUndefined k = Inl (CannotReadProperty k)"
| "get_field JNull k = Inl (CannotReadProperty k)"
| "get_field (JObj kvs) k = Inr (case map_of kvs k of None \<Rightarrow> JUndefined | Some v \<Rightarrow> v)"
| "get_field v k = Inr JUndefined"

text \<open>Reading the element \<open>v[0]\<close> (of a string, its first character).\<close>

fun get_first :: "jsval \<Rightarrow> js_error + jsval" where
  "get_first JUndefined = Inl (CannotReadProperty ''0'')"
| "get_first JNull = Inl (CannotReadProperty ''0'')"
| "get_first (JArr xs) = Inr (case xs of [] \<Rightarrow> JUndefined | x # _ \<Rightarrow> x)"
| "get_first (JStr s) = Inr (case s of [] \<Rightarrow> JUndefined | c # _ \<Rightarrow> JStr [c])"
| "get_first (JObj kvs) = Inr (case map_of kvs ''0'' of None \<Rightarrow> JUndefined | Some v \<Rightarrow> v)"
| "get_first v = Inr JUndefined"

section \<open>What a handler does: responses and effects\<close>

text \<open>
  The response a handler sends: \<open>res.status(n).json(v)\<close>, \<open>res.status(n).send(s)\<close>,
  \<open>res.redirect(url)\<close> (status 302 unless given), and the framework's own error page for
  an error no handler of the program catches.
\<close>

datatype response =
    Json nat jsval
  | Send nat string
  | Redirect nat string
  | ErrorPage nat

datatype logarg = LVal jsval | LErr js_error

text \<open>
  The effects in the order they happen: console output (the text and the further
  arguments), a keyed hash computed (key and message), an order sent to the gateway,
  process exit with its status, and the server asked to listen on a port.
\<close>

datatype event =
    ConsoleLog string "logarg list"
  | ConsoleWarn string "logarg list"
  | ConsoleError string "logarg list"
  | CreateHmac string string
  | OrdersCreate jsval
  | ProcessExit nat
  | Listen jsval

text \<open>The marks that start the console messages, as their UTF-8 bytes.\<close>

definition check_mark :: string where
  "check_mark = [CHR 0xE2, CHR 0x9C, CHR 0x85]"

definition cross_mark :: string where
  "cross_mark = [CHR 0xE2, CHR 0x9D, CHR 0x8C]"

definition warning_sign :: string where
  "warning_sign = [CHR 0xE2, CHR 0x9A, CHR 0xA0, CHR 0xEF, CHR 0xB8, CHR 0x8F]"

text \<open>\<open>error.message\<close>: what a rejection carries, or the engine's text for its own errors.\<close>

fun message_of :: "platform \<Rightarrow> js_error \<Rightarrow> jsval" where
  "message_of P (Rejected m) = m"
| "message_of P e = error_message P e"

section \<open>Start of the process\<close>

definition requiredEnvVars :: "string list" where
  "requiredEnvVars =
     [''GOOGLE_CLIENT_ID'',
      ''GOOGLE_CLIENT_SECRET'',
      ''GOOGLE_CALLBACK_URL'',
      ''SESSION_SECRET'',
      ''RAZOR_PAY_KEY_ID'',
      ''RAZOR_PAY_KEY_SECRET'']"

text \<open>\<open>process.env[name]\<close> is a string or \<open>undefined\<close>; it is truthy when set and not empty.\<close>

fun env_truthy :: "string option \<Rightarrow> bool" where
  "env_truthy None = False"
| "env_truthy (Some s) = (s \<noteq> [])"

definition missingEnvVars :: "(string \<Rightarrow> string option) \<Rightarrow> string list" where
  "missingEnvVars env = filter (\<lambda>envVar. \<not> env_truthy (env envVar)) requiredEnvVars"

text \<open>\<open>Array.prototype.join\<close> on strings.\<close>

fun join :: "string \<Rightarrow> string list \<Rightarrow> string" where
  "join sep [] = []"
| "join sep [x] = x"
| "join sep (x # xs) = x @ sep @ join sep xs"

text \<open>The value of a variable that is set and not empty.\<close>

fun env_value :: "string option \<Rightarrow> string option" where
  "env_value None = None"
| "env_value (Some s) = (if s = [] then None else Some s)"

text \<open>
  The session store: \<open>MongoStore.create\<close> (\<open>Some\<close> the message of what it throws) when
  \<open>MONGO_URI\<close> is set, the memory store otherwise, neither of them accepted in
  production. The boolean tells whether the process goes on.
\<close>

definition session_store ::
  "(string \<Rightarrow> string option) \<Rightarrow> (string \<Rightarrow> string option) \<Rightarrow> event list \<times> bool" where
  "session_store env mongo_create =
     (case env_value (env ''MONGO_URI'') of
        Some mongoUrl \<Rightarrow>
          (case mongo_create mongoUrl of
             None \<Rightarrow>
               ([ConsoleLog (check_mark @ '' MongoDB session store initialized successfully'') []],
                True)
           | Some msg \<Rightarrow>
               (if env ''NODE_ENV'' = Some ''production'' then
                  ([ConsoleError (cross_mark @ '' Error initializing MongoStore:'')
                      [LVal (JStr msg)],
                    ConsoleError ''Cannot use memory store in production. Exiting...'' [],
                    ProcessExit 1],
                   False)
                else
                  ([ConsoleError (cross_mark @ '' Error initializing MongoStore:'')
                      [LVal (JStr msg)],
                    ConsoleWarn
                      (warning_sign @ ''  Falling back to memory store (development only)'') []],
                   True)))
      | None \<Rightarrow>
          (if env ''NODE_ENV'' = Some ''production'' then
             ([ConsoleError
                 (cross_mark @ '' MONGO_URI is required in production. Exiting...'') [],
               ProcessExit 1],
              False)
           else
             ([ConsoleWarn
                 (warning_sign @ ''  Using memory store for sessions (not recommended)'') []],
              True)))"

text \<open>\<open>process.env.PORT || 3000\<close>.\<close>

definition PORT :: "(string \<Rightarrow> string option) \<Rightarrow> jsval" where
  "PORT env = (case env_value (env ''PORT'') of Some port \<Rightarrow> JStr port | None \<Rightarrow> JNum (Fin 3000))"

text \<open>
  The top level of the server script, from the check of the environment to the call of
  \<open>app.listen\<close>: the effects it has, in order. \<open>process.exit\<close> ends the trace.
\<close>

definition startup ::
  "(string \<Rightarrow> string option) \<Rightarrow> (string \<Rightarrow> string option) \<Rightarrow> event list" where
  "startup env mongo_create =
     (if length (missingEnvVars env) > 0 then
        [ConsoleError
           (cross_mark @ '' Missing required environment variables: '' @
            join '', '' (missingEnvVars env)) [],
         ConsoleError ''Please set these variables in your .env file'' [],
         ProcessExit 1]
      else
        (if \<not> env_truthy (env ''MONGO_URI'') then
           [ConsoleWarn
              (warning_sign @ ''  WARNING: MONGO_URI not set. Sessions will use memory store.'') [],
            ConsoleWarn
              ''   This is NOT recommended for production - sessions will be lost on restart.'' []]
         else []) @
        (case session_store env mongo_create of
           (evs, False) \<Rightarrow> evs
         | (evs, True) \<Rightarrow>
             evs @
             [ConsoleLog (check_mark @ '' Razorpay initialized successfully'') [],
              Listen (PORT env)]))"

section \<open>The payment routes\<close>

subsection \<open>POST /api/razorpay/create-order\<close>

definition invalid_amount :: response where
  "invalid_amount =
     Json 400 (JObj [(''success'', JBool False), (''error'', JStr ''Invalid amount'')])"

text \<open>
  The \<open>options\<close> object: \<open>n\<close> is \<open>amount\<close> as a number, \<open>currency\<close> and \<open>receipt\<close> are
  what the destructuring gave.
\<close>

definition order_options :: "platform \<Rightarrow> jsnum \<Rightarrow> jsval \<Rightarrow> jsval \<Rightarrow> jsval" where
  "order_options P n currency receipt =
     JObj [(''amount'', JNum (js_mul n (Fin 100))),
           (''currency'', currency),
           (''receipt'',
            if truthy receipt then receipt
            else JStr (''receipt_'' @ number_to_string P (date_now P))),
           (''payment_capture'', JNum (Fin 1))]"

text \<open>What follows the validation: the call of the gateway and the answer.\<close>

definition place_order :: "platform \<Rightarrow> jsval \<Rightarrow> event list \<times> (js_error + response)" where
  "place_order P options =
     (case orders_create P options of
        Inl m \<Rightarrow> ([OrdersCreate options], Inl (Rejected m))
      | Inr order \<Rightarrow>
          (case get_field order ''id'' of
             Inl e \<Rightarrow> ([OrdersCreate options], Inl e)
           | Inr order_id \<Rightarrow>
               ([OrdersCreate options,
                 ConsoleLog (check_mark @ '' Razorpay order created:'') [LVal order_id]],
                Inr (Json 200 (JObj [(''success'', JBool True), (''order'', order)])))))"

text \<open>
  The body of the \<open>try\<close> block. \<open>amount <= 0\<close> and \<open>amount * 100\<close> convert \<open>amount\<close> to the
  same number, computed once here; a missing \<open>currency\<close> takes its default \<open>INR\<close>.
\<close>

definition create_order_try :: "platform \<Rightarrow> jsval \<Rightarrow> event list \<times> (js_error + response)" where
  "create_order_try P body =
     (case get_field body ''amount'' of
        Inl e \<Rightarrow> ([], Inl e)
      | Inr amount \<Rightarrow>
     (case get_field body ''currency'' of
        Inl e \<Rightarrow> ([], Inl e)
      | Inr c \<Rightarrow>
     (case get_field body ''receipt'' of
        Inl e \<Rightarrow> ([], Inl e)
      | Inr receipt \<Rightarrow>
     (let currency = (if c = JUndefined then JStr ''INR'' else c) in
      if \<not> truthy amount then ([], Inr invalid_amount)
      else
        (case to_number P amount of
           Inl e \<Rightarrow> ([], Inl e)
         | Inr n \<Rightarrow>
             if js_le n (Fin 0) then ([], Inr invalid_amount)
             else place_order P (order_options P n currency receipt))))))"

definition create_order :: "platform \<Rightarrow> jsval \<Rightarrow> event list \<times> response" where
  "create_order P body =
     (case create_order_try P body of
        (evs, Inr r) \<Rightarrow> (evs, r)
      | (evs, Inl error) \<Rightarrow>
          (evs @ [ConsoleError (cross_mark @ '' Error creating Razorpay order:'') [LErr error]],
           Json 500 (JObj [(''success'', JBool False), (''error'', message_of P error)])))"

subsection \<open>POST /api/razorpay/verify-payment\<close>

definition missing_parameters :: response where
  "missing_parameters =
     Json 400 (JObj [(''success'', JBool False),
                     (''error'', JStr ''Missing payment verification parameters'')])"

definition invalid_signature :: response where
  "invalid_signature =
     Json 400 (JObj [(''success'', JBool False),
                     (''error'', JStr ''Invalid payment signature'')])"

definition payment_verified :: "jsval \<Rightarrow> jsval \<Rightarrow> response" where
  "payment_verified razorpay_payment_id razorpay_order_id =
     Json 200 (JObj [(''success'', JBool True),
                     (''message'', JStr ''Payment verified successfully''),
                     (''payment_id'', razorpay_payment_id),
                     (''order_id'', razorpay_order_id)])"

text \<open>\<open>razorpay_order_id + '|' + razorpay_payment_id\<close>: string concatenation, left to right.\<close>

definition sign_of :: "platform \<Rightarrow> jsval \<Rightarrow> jsval \<Rightarrow> js_error + string" where
  "sign_of P razorpay_order_id razorpay_payment_id =
     (case to_string (number_to_string P) razorpay_order_id of
        Inl e \<Rightarrow> Inl e
      | Inr a \<Rightarrow>
          (case to_string (number_to_string P) razorpay_payment_id of
             Inl e \<Rightarrow> Inl e
           | Inr b \<Rightarrow> Inr (a @ ''|'' @ b)))"

definition verify_payment_try :: "platform \<Rightarrow> jsval \<Rightarrow> event list \<times> (js_error + response)" where
  "verify_payment_try P body =
     (case get_field body ''razorpay_order_id'' of
        Inl e \<Rightarrow> ([], Inl e)
      | Inr razorpay_order_id \<Rightarrow>
     (case get_field body ''razorpay_payment_id'' of
        Inl e \<Rightarrow> ([], Inl e)
      | Inr razorpay_payment_id \<Rightarrow>
     (case get_field body ''razorpay_signature'' of
        Inl e \<Rightarrow> ([], Inl e)
      | Inr razorpay_signature \<Rightarrow>
     (if \<not> truthy razorpay_order_id \<or> \<not> truthy razorpay_payment_id \<or>
         \<not> truthy razorpay_signature
      then ([], Inr missing_parameters)
      else
        (case sign_of P razorpay_order_id razorpay_payment_id of
           Inl e \<Rightarrow> ([], Inl e)
         | Inr sign \<Rightarrow>
             (case process_env P ''RAZOR_PAY_KEY_SECRET'' of
                None \<Rightarrow> ([], Inl InvalidKeyArgument)
              | Some secret \<Rightarrow>
                  (let expectedSign = hmac_sha256_hex P secret sign in
                   if razorpay_signature = JStr expectedSign then
                     ([CreateHmac secret sign,
                       ConsoleLog (check_mark @ '' Payment verified successfully:'')
                         [LVal razorpay_payment_id]],
                      Inr (payment_verified razorpay_payment_id razorpay_order_id))
                   else
                     ([CreateHmac secret sign,
                       ConsoleError
                         (cross_mark @ '' Payment verification failed - signature mismatch'') []],
                      Inr invalid_signature))))))))"

definition verify_payment :: "platform \<Rightarrow> jsval \<Rightarrow> event list \<times> response" where
  "verify_payment P body =
     (case verify_payment_try P body of
        (evs, Inr r) \<Rightarrow> (evs, r)
      | (evs, Inl error) \<Rightarrow>
          (evs @ [ConsoleError (cross_mark @ '' Error verifying payment:'') [LErr error]],
           Json 500 (JObj [(''success'', JBool False), (''error'', message_of P error)])))"

section \<open>The session routes\<close>

text \<open>
  The request as the handlers read it: \<open>req.user\<close> is the identity the session
  middleware restored from the session, \<open>undefined\<close> when the session carries none
  (a stored value that is falsy is dropped and counts as none).
\<close>

record request =
  user :: jsval

definition deserialize :: "jsval option \<Rightarrow> request" where
  "deserialize stored =
     \<lparr>user = (case stored of None \<Rightarrow> JUndefined
                | Some su \<Rightarrow> if truthy su then su else JUndefined)\<rparr>"

text \<open>\<open>req.isAuthenticated()\<close>: whether \<open>req.user\<close> is truthy.\<close>

definition isAuthenticated :: "request \<Rightarrow> bool" where
  "isAuthenticated req = truthy (user req)"

text \<open>
  The error-handling middleware of the server: the handlers that throw here throw errors
  without a \<open>status\<close>, so the status is 500.
\<close>

definition error_handler :: "platform \<Rightarrow> js_error \<Rightarrow> event list \<times> response" where
  "error_handler P err =
     ([ConsoleError (cross_mark @ '' Error:'') [LVal (message_of P err)]],
      Json 500
        (JObj [(''error'',
                if process_env P ''NODE_ENV'' = Some ''production''
                then JStr ''An error occurred'' else message_of P err),
               (''status'', JNum (Fin 500))]))"

subsection \<open>GET /profile\<close>

text \<open>The page of the server, with the three texts put into the template.\<close>

definition profile_page :: "string \<Rightarrow> string \<Rightarrow> string \<Rightarrow> string" where
  "profile_page name email photo =
     [CHR 0x0A] @
     ''            <!DOCTYPE html>'' @ [CHR 0x0A] @
     ''            <html>'' @ [CHR 0x0A] @
     ''            <head>'' @ [CHR 0x0A] @
     ''                <title>Profile - GroceryBucket</title>'' @ [CHR 0x0A] @
     ''                <style>'' @ [CHR 0x0A] @
     ''                    body {'' @ [CHR 0x0A] @
     ''                        font-family: Arial, sans-serif;'' @ [CHR 0x0A] @
     ''                        max-width: 600px;'' @ [CHR 0x0A] @
     ''                        margin: 50px auto;'' @ [CHR 0x0A] @
     ''                        padding: 20px;'' @ [CHR 0x0A] @
     ''                        text-align: center;'' @ [CHR 0x0A] @
     ''                        background: linear-gradient(to right, rgb(2, 39, 32), rgb(11, 109, 59));'' @ [CHR 0x0A] @
     ''                        color: white;'' @ [CHR 0x0A] @
     ''                    }'' @ [CHR 0x0A] @
     ''                    img {'' @ [CHR 0x0A] @
     ''                        border-radius: 50%;'' @ [CHR 0x0A] @
     ''                        width: 100px;'' @ [CHR 0x0A] @
     ''                        margin: 20px 0;'' @ [CHR 0x0A] @
     ''                    }'' @ [CHR 0x0A] @
     ''                    .btn {'' @ [CHR 0x0A] @
     ''                        background-color: #ffc107;'' @ [CHR 0x0A] @
     ''                        color: black;'' @ [CHR 0x0A] @
     ''                        padding: 10px 20px;'' @ [CHR 0x0A] @
     ''                        text-decoration: none;'' @ [CHR 0x0A] @
     ''                        border-radius: 5px;'' @ [CHR 0x0A] @
     ''                        display: inline-block;'' @ [CHR 0x0A] @
     ''                        margin-top: 20px;'' @ [CHR 0x0A] @
     ''                    }'' @ [CHR 0x0A] @
     ''                    .btn:hover {'' @ [CHR 0x0A] @
     ''                        background-color: #ffb300;'' @ [CHR 0x0A] @
     ''                    }'' @ [CHR 0x0A] @
     ''                    a {'' @ [CHR 0x0A] @
     ''                        color: #ffc107;'' @ [CHR 0x0A] @
     ''                    }'' @ [CHR 0x0A] @
     ''                </style>'' @ [CHR 0x0A] @
     ''            </head>'' @ [CHR 0x0A] @
     ''            <body>'' @ [CHR 0x0A] @
     ''                <h1>Welcome, '' @ name @ ''!</h1>'' @ [CHR 0x0A] @
     ''                <img src='' @ [CHR 0x22] @ photo @ [CHR 0x22] @ '' alt='' @ [CHR 0x22] @ ''Profile Photo'' @ [CHR 0x22] @ ''>'' @ [CHR 0x0A] @
     ''                <p><strong>Email:</strong> '' @ email @ ''</p>'' @ [CHR 0x0A] @
     ''                <a href='' @ [CHR 0x22] @ ''/logout'' @ [CHR 0x22] @ '' class='' @ [CHR 0x22] @ ''btn'' @ [CHR 0x22] @ ''>Logout</a>'' @ [CHR 0x0A] @
     ''                <br><br>'' @ [CHR 0x0A] @
     ''                <a href='' @ [CHR 0x22] @ ''/'' @ [CHR 0x22] @ ''>'' @ [CHR 0xE2, CHR 0x86, CHR 0x90] @ '' Back to Home</a>'' @ [CHR 0x0A] @
     ''            </body>'' @ [CHR 0x0A] @
     ''            </html>'' @ [CHR 0x0A] @
     ''        ''"

text \<open>\<open>user.emails ? user.emails[0].value : 'No Email'\<close>, and the same for the photo.\<close>

definition first_value_or :: "jsval \<Rightarrow> string \<Rightarrow> string \<Rightarrow> js_error + jsval" where
  "first_value_or u k dflt =
     (case get_field u k of
        Inl e \<Rightarrow> Inl e
      | Inr xs \<Rightarrow>
          if truthy xs then
            (case get_first xs of
               Inl e \<Rightarrow> Inl e
             | Inr x \<Rightarrow> get_field x ''value'')
          else Inr (JStr dflt))"

text \<open>The three conversions of a template literal, in the order of its placeholders.\<close>

definition render3 ::
  "platform \<Rightarrow> (string \<Rightarrow> string \<Rightarrow> string \<Rightarrow> string) \<Rightarrow> jsval \<Rightarrow> jsval \<Rightarrow> jsval
     \<Rightarrow> js_error + string" where
  "render3 P page a b c =
     (case to_string (number_to_string P) a of
        Inl e \<Rightarrow> Inl e
      | Inr sa \<Rightarrow>
          (case to_string (number_to_string P) b of
             Inl e \<Rightarrow> Inl e
           | Inr sb \<Rightarrow>
               (case to_string (number_to_string P) c of
                  Inl e \<Rightarrow> Inl e
                | Inr sc \<Rightarrow> Inr (page sa sb sc))))"

definition profile_html :: "platform \<Rightarrow> jsval \<Rightarrow> js_error + string" where
  "profile_html P u =
     (case get_field u ''displayName'' of
        Inl e \<Rightarrow> Inl e
      | Inr name \<Rightarrow>
          (case first_value_or u ''emails'' ''No Email'' of
             Inl e \<Rightarrow> Inl e
           | Inr email \<Rightarrow>
               (case first_value_or u ''photos'' ''/default-avatar.png'' of
                  Inl e \<Rightarrow> Inl e
                | Inr photo \<Rightarrow>
                    render3 P (\<lambda>n p e. profile_page n e p) name photo email)))"

text \<open>The handler of the server; what it throws goes to \<open>error_handler\<close>.\<close>

definition get_profile :: "platform \<Rightarrow> request \<Rightarrow> event list \<times> response" where
  "get_profile P req =
     (if isAuthenticated req then
        (case profile_html P (user req) of
           Inl e \<Rightarrow> error_handler P e
         | Inr html \<Rightarrow> ([], Send 200 html))
      else ([], Redirect 302 ''/''))"

text \<open>
  The handler of \<open>index.js\<close>: no test of the session and no error handler of the
  program, so what it throws is answered by the framework's error page.
\<close>

definition profile_page_index_js :: "string \<Rightarrow> string \<Rightarrow> string \<Rightarrow> string" where
  "profile_page_index_js name email photo =
     [CHR 0x0A] @
     ''    <h1>Welcome, '' @ name @ ''</h1>'' @ [CHR 0x0A] @
     ''    <p>Email: '' @ email @ ''</p>'' @ [CHR 0x0A] @
     ''    <img src='' @ [CHR 0x22] @ photo @ [CHR 0x22] @ '' alt='' @ [CHR 0x22] @ ''Profile Photo'' @ [CHR 0x22] @ '' style='' @ [CHR 0x22] @ ''border-radius:50%; width:100px;'' @ [CHR 0x22] @ ''>'' @ [CHR 0x0A] @
     ''    <br><br>'' @ [CHR 0x0A] @
     ''    <a href='' @ [CHR 0x22] @ ''/logout'' @ [CHR 0x22] @ ''>Logout</a>'' @ [CHR 0x0A] @
     ''  ''"

definition first_value :: "jsval \<Rightarrow> string \<Rightarrow> js_error + jsval" where
  "first_value u k =
     (case get_field u k of
        Inl e \<Rightarrow> Inl e
      | Inr xs \<Rightarrow>
          (case get_first xs of
             Inl e \<Rightarrow> Inl e
           | Inr x \<Rightarrow> get_field x ''value''))"

definition profile_html_index_js :: "platform \<Rightarrow> jsval \<Rightarrow> js_error + string" where
  "profile_html_index_js P u =
     (case get_field u ''displayName'' of
        Inl e \<Rightarrow> Inl e
      | Inr name \<Rightarrow>
          (case first_value u ''emails'' of
             Inl e \<Rightarrow> Inl e
           | Inr email \<Rightarrow>
               (case first_value u ''photos'' of
                  Inl e \<Rightarrow> Inl e
                | Inr photo \<Rightarrow> render3 P profile_page_index_js name email photo)))"

definition get_profile_index_js :: "platform \<Rightarrow> request \<Rightarrow> response" where
  "get_profile_index_js P req =
     (case profile_html_index_js P (user req) of
        Inl e \<Rightarrow> ErrorPage 500
      | Inr html \<Rightarrow> Send 200 html)"

text \<open>
  The handler of the third server file (\<open>part_001\<close>): the test of the session is there,
  the error handler of the program is not.
\<close>

definition profile_page_part_001 :: "string \<Rightarrow> string \<Rightarrow> string \<Rightarrow> string" where
  "profile_page_part_001 name email photo =
     [CHR 0x0A] @
     ''            <h1>Welcome, '' @ name @ ''</h1>'' @ [CHR 0x0A] @
     ''            <p>Email: '' @ email @ ''</p>'' @ [CHR 0x0A] @
     ''            <img src='' @ [CHR 0x22] @ photo @ [CHR 0x22] @ '' alt='' @ [CHR 0x22] @ ''Profile Photo'' @ [CHR 0x22] @ '' style='' @ [CHR 0x22] @ ''border-radius:50%; width:100px;'' @ [CHR 0x22] @ ''>'' @ [CHR 0x0A] @
     ''            <br><br>'' @ [CHR 0x0A] @
     ''            <a href='' @ [CHR 0x22] @ ''/logout'' @ [CHR 0x22] @ ''>Logout</a>'' @ [CHR 0x0A] @
     ''        ''"

definition profile_html_part_001 :: "platform \<Rightarrow> jsval \<Rightarrow> js_error + string" where
  "profile_html_part_001 P u =
     (case get_field u ''displayName'' of
        Inl e \<Rightarrow> Inl e
      | Inr name \<Rightarrow>
          (case first_value_or u ''emails'' ''No Email'' of
             Inl e \<Rightarrow> Inl e
           | Inr email \<Rightarrow>
               (case first_value_or u ''photos'' ''/default-avatar.png'' of
                  Inl e \<Rightarrow> Inl e
                | Inr photo \<Rightarrow> render3 P profile_page_part_001 name email photo)))"

definition get_profile_part_001 :: "platform \<Rightarrow> request \<Rightarrow> response" where
  "get_profile_part_001 P req =
     (if isAuthenticated req then
        (case profile_html_part_001 P (user req) of
           Inl e \<Rightarrow> ErrorPage 500
         | Inr html \<Rightarrow> Send 200 html)
      else Redirect 302 ''/'')"

subsection \<open>GET /logout\<close>




section \<open>Reading the effects of a handler\<close>

text \<open>The orders sent to the gateway, and the keyed hashes computed, in a trace.\<close>

fun gateway_calls :: "event list \<Rightarrow> jsval list" where
  "gateway_calls [] = []"
| "gateway_calls (OrdersCreate opts # evs) = opts # gateway_calls evs"
| "gateway_calls (_ # evs) = gateway_calls evs"

fun hmac_calls :: "event list \<Rightarrow> (string \<times> string) list" where
  "hmac_calls [] = []"
| "hmac_calls (CreateHmac k m # evs) = (k, m) # hmac_calls evs"
| "hmac_calls (_ # evs) = hmac_calls evs"

text \<open>The three properties the verification route reads from the body.\<close>

definition verification_fields :: "string list" where
  "verification_fields = [''razorpay_order_id'', ''razorpay_payment_id'', ''razorpay_signature'']"

text \<open>
  A platform to run the handlers on concrete requests. Its hash is a stand-in that keeps
  key and message readable; the gateway answers every order with the same order object.
\<close>

definition sample_platform :: platform where
  "sample_platform =
     \<lparr>number_to_string = (\<lambda>n. ''0''),
      string_to_number = (\<lambda>s. NaN),
      error_message = (\<lambda>e. JStr ''error''),
      hmac_sha256_hex = (\<lambda>k m. ''hmac:'' @ k @ '':'' @ m),
      orders_create = (\<lambda>opts. Inr (JObj [(''id'', JStr ''order_1'')])),
      date_now = Fin 0,
      process_env = (\<lambda>name. if name = ''RAZOR_PAY_KEY_SECRET'' then Some ''secret'' else None)\<rparr>"

section \<open>Properties: rounding to binary64\<close>

lemma floorlog2_eqI:
  assumes "2 ^ k \<le> n" and "n < 2 ^ Suc k"
  shows "floorlog 2 n = Suc k"
proof -
  have "floorlog 2 n \<le> Suc k"
    using assms(2) by (intro floorlog_leI) auto
  moreover have "Suc k \<le> floorlog 2 n"
    using assms(1) by (intro floorlog_ge_SucI) auto
  ultimately show ?thesis by simp
qed

lemma ilog2_ge1:
  assumes "2 ^ k \<le> q" and "q < 2 ^ Suc k"
  shows "ilog2 q = int k"
proof -
  have q1: "1 \<le> q"
    using assms(1) one_le_power [of "2::rat" k] by linarith
  have lo: "(2::int) ^ k \<le> \<lfloor>q\<rfloor>"
    using assms(1) by (simp add: le_floor_iff)
  have hi: "\<lfloor>q\<rfloor> < (2::int) ^ Suc k"
    using assms(2) by (simp add: floor_less_iff)
  have "2 ^ k \<le> nat \<lfloor>q\<rfloor>"
    using lo by (simp add: le_nat_iff nat_le_iff of_nat_power_le_of_nat_cancel_iff)
  moreover have "nat \<lfloor>q\<rfloor> < 2 ^ Suc k"
    using hi q1 by (simp add: nat_less_iff)
  ultimately have "floorlog 2 (nat \<lfloor>q\<rfloor>) = Suc k"
    by (rule floorlog2_eqI)
  then show ?thesis using q1 by (simp add: ilog2_def)
qed

lemma ilog2_lt1:
  assumes "1 / 2 ^ Suc k \<le> q" and "q < 1 / 2 ^ k"
  shows "ilog2 q = - int (Suc k)"
proof -
  have "0 < 1 / (2::rat) ^ Suc k" by simp
  then have q0: "0 < q"
    using assms(1) by (rule less_le_trans)
  have "1 / (2::rat) ^ k \<le> 1" by simp
  with assms(2) have qlt1: "q < 1"
    by (rule less_le_trans)
  have up: "1 / q \<le> 2 ^ Suc k"
    using assms(1) q0 by (simp add: field_simps)
  have dn: "2 ^ k < 1 / q"
    using assms(2) q0 by (simp add: field_simps)
  have c_hi: "\<lceil>1 / q\<rceil> \<le> (2::int) ^ Suc k"
    using up by (simp add: ceiling_le_iff)
  have c_lo: "(2::int) ^ k < \<lceil>1 / q\<rceil>"
    using dn by (simp add: less_ceiling_iff)
  have "2 ^ k \<le> nat (\<lceil>1 / q\<rceil> - 1)"
    using c_lo by (simp add: le_nat_iff nat_le_iff of_nat_power_le_of_nat_cancel_iff)
  moreover have "nat (\<lceil>1 / q\<rceil> - 1) < 2 ^ Suc k"
  proof -
    have "(1::int) \<le> 2 ^ k" by simp
    then have pos: "0 \<le> \<lceil>1 / q\<rceil> - 1" using c_lo by linarith
    have "\<lceil>1 / q\<rceil> - 1 < int (2 ^ Suc k)" using c_hi by simp
    then show ?thesis using pos by (simp only: nat_less_iff)
  qed
  ultimately have "floorlog 2 (nat (\<lceil>1 / q\<rceil> - 1)) = Suc k"
    by (rule floorlog2_eqI)
  then show ?thesis using qlt1 by (simp add: ilog2_def)
qed

lemma ilog2_eqI:
  assumes "pow2 e \<le> q" and "q < pow2 (e + 1)"
  shows "ilog2 q = e"
proof (cases "0 \<le> e")
  case True
  then have "2 ^ nat e \<le> q" and "q < 2 ^ Suc (nat e)"
    using assms by (simp_all add: pow2_def nat_add_distrib)
  then have "ilog2 q = int (nat e)" by (rule ilog2_ge1)
  then show ?thesis using True by simp
next
  case False
  define k where "k = nat (- e) - 1"
  have k: "e = - int (Suc k)"
    using False by (simp add: k_def)
  have nk [simp]: "nat (int n + 1) = Suc n" for n by simp
  have "1 / 2 ^ Suc k \<le> q"
    using assms(1) by (simp add: k pow2_def)
  moreover have "q < 1 / 2 ^ k"
    using assms(2) by (cases k) (simp_all add: k pow2_def)
  ultimately have "ilog2 q = - int (Suc k)" by (rule ilog2_lt1)
  then show ?thesis by (simp add: k)
qed

lemma round_half_even_eqI:
  assumes "\<bar>x - of_int m\<bar> < 1 / 2"
  shows "round_half_even x = m"
proof -
  have b1: "x - of_int m < 1 / 2" and b2: "- (1 / 2) < x - of_int m"
    using assms by (simp_all only: abs_less_iff minus_diff_eq) linarith+
  have lo: "of_int \<lfloor>x\<rfloor> \<le> x" and hi: "x < of_int \<lfloor>x\<rfloor> + 1"
    by linarith+
  have "of_int (m - 1) < x"
    using b2 by simp
  then have "m - 1 \<le> \<lfloor>x\<rfloor>"
    by (simp only: le_floor_iff less_imp_le)
  moreover have "x < of_int (m + 1)"
    using b1 by simp
  then have "\<lfloor>x\<rfloor> < m + 1"
    by (simp only: floor_less_iff)
  ultimately consider "\<lfloor>x\<rfloor> = m" | "\<lfloor>x\<rfloor> = m - 1"
    by linarith
  then show ?thesis
  proof cases
    case 1
    then have "x - of_int \<lfloor>x\<rfloor> < 1 / 2" using b1 by simp
    then show ?thesis using 1 by (simp add: round_half_even_def Let_def)
  next
    case 2
    then have "1 / 2 < x - of_int \<lfloor>x\<rfloor>" using b2 by simp
    then show ?thesis using 2 by (simp add: round_half_even_def Let_def)
  qed
qed

lemma fl_eqI:
  assumes "x \<noteq> 0" and "pow2 e \<le> \<bar>x\<bar>" and "\<bar>x\<bar> < pow2 (e + 1)"
    and "- 1022 \<le> e" and "e < 1023"
    and "\<bar>\<bar>x\<bar> / pow2 (e - 52) - of_int m\<bar> < 1 / 2"
  shows "fl x = Fin (sgn x * (of_int m * pow2 (e - 52)))"
proof -
  have i: "ilog2 \<bar>x\<bar> = e"
    using assms(2,3) by (rule ilog2_eqI)
  have m: "max (ilog2 \<bar>x\<bar>) (- 1022) = e"
    using i assms(4) by simp
  have r: "round_half_even (\<bar>x\<bar> / pow2 (e - 52)) = m"
    using assms(6) by (rule round_half_even_eqI)
  have ne: "\<not> (1023 < e \<or> e = 1023 \<and> 2 ^ 53 \<le> m)"
    using assms(5) by simp
  show ?thesis
    unfolding fl_def Let_def m r using assms(1) ne by simp
qed

text \<open>A whole number below \<open>2^53\<close> is a binary64 value: rounding leaves it as it is.\<close>

lemma fl_of_nat:
  assumes "0 < n" and "n < 2 ^ 53"
  shows "fl (of_nat n) = Fin (of_nat n)"
proof -
  define k where "k = floorlog 2 n - 1"
  have kpos: "0 < floorlog 2 n"
    using assms(1) by (simp add: floorlog_def)
  have b: "2 ^ k \<le> n \<and> n < 2 ^ Suc k"
    using floorlog_bounds [of n 2] assms(1) kpos by (simp add: k_def)
  have "(2::nat) ^ k < 2 ^ 53"
    using b assms(2) by linarith
  have k52: "k < 53"
  proof (rule ccontr)
    assume "\<not> k < 53"
    then have "53 \<le> k" by simp
    then have "(2::nat) ^ 53 \<le> 2 ^ k"
      by (rule power_increasing) simp
    with \<open>(2::nat) ^ k < 2 ^ 53\<close> show False by linarith
  qed
  let ?x = "of_nat n :: rat"
  let ?m = "int (n * 2 ^ (52 - k))"
  have lo: "pow2 (int k) \<le> \<bar>?x\<bar>"
  proof -
    have "(of_nat (2 ^ k) :: rat) \<le> of_nat n"
      using b by (simp only: of_nat_le_iff)
    then show ?thesis by (simp add: pow2_def)
  qed
  have hi: "\<bar>?x\<bar> < pow2 (int k + 1)"
  proof -
    have "(of_nat n :: rat) < of_nat (2 ^ Suc k)"
      using b by (simp only: of_nat_less_iff)
    then show ?thesis by (simp add: pow2_def nat_add_distrib)
  qed
  have ulp: "pow2 (int k - 52) = 1 / 2 ^ (52 - k)"
  proof (cases "k = 52")
    case True
    then show ?thesis by (simp add: pow2_def)
  next
    case False
    then have "k < 52" using k52 by simp
    then have "nat (52 - int k) = 52 - k" by simp
    then show ?thesis using \<open>k < 52\<close> by (simp add: pow2_def)
  qed
  have exact: "?x / pow2 (int k - 52) = of_nat n * 2 ^ (52 - k)"
    by (simp add: ulp)
  have "fl ?x = Fin (sgn ?x * (of_int ?m * pow2 (int k - 52)))"
    using assms(1) lo hi k52 by (intro fl_eqI) (simp_all add: exact)
  moreover have "sgn ?x * (of_int ?m * pow2 (int k - 52)) = ?x"
    using assms(1) by (simp add: ulp sgn_if)
  ultimately show ?thesis by simp
qed

text \<open>So a whole amount times 100 is exact as long as the product stays below \<open>2^53\<close>.\<close>

lemma js_mul_whole_amount:
  assumes "0 < k" and "k * 100 < 2 ^ 53"
  shows "js_mul (Fin (of_nat k)) (Fin 100) = Fin (of_nat (k * 100))"
  using fl_of_nat [of "k * 100"] assms by simp

text \<open>Products the scenarios need, and the literal \<open>0.005\<close> as a binary64 value.\<close>

lemma fl_50000: "fl 50000 = Fin 50000"
  using fl_eqI [of 50000 15 6871947673600000] by (simp add: pow2_def)

lemma fl_50: "fl 50 = Fin 50"
  using fl_eqI [of 50 5 7036874417766400] by (simp add: pow2_def)

lemma fl_100: "fl 100 = Fin 100"
  using fl_eqI [of 100 6 7036874417766400] by (simp add: pow2_def)

lemma fl_0005: "fl (5 / 1000) = Fin (5764607523034235 / 2 ^ 60)"
  using fl_eqI [of "5 / 1000" "- 8" 5764607523034235] by (simp add: pow2_def)

lemma fl_0005_times_100: "fl (5764607523034235 / 2 ^ 60 * 100) = Fin (1 / 2)"
  using fl_eqI [of "5764607523034235 / 2 ^ 60 * 100" "- 1" 4503599627370496]
  by (simp add: pow2_def)

text \<open>The rounding is there: \<open>1.1 * 100\<close> is \<open>110.00000000000001\<close>, not \<open>110\<close>.\<close>

lemma fl_11_times_100:
  "fl (11 / 10) = Fin (4953959590107546 / 2 ^ 52) \<and>
   js_mul (Fin (4953959590107546 / 2 ^ 52)) (Fin 100) = Fin (7740561859543041 / 2 ^ 46) \<and>
   Fin (7740561859543041 / 2 ^ 46) \<noteq> Fin 110"
  using fl_eqI [of "11 / 10" 0 4953959590107546]
    fl_eqI [of "4953959590107546 / 2 ^ 52 * 100" 6 7740561859543041]
  by (simp add: pow2_def)

section \<open>Properties: reading a body\<close>

lemma get_field_other:
  "get_field body k = Inr v \<Longrightarrow> \<exists>w. get_field body k' = Inr w"
  by (cases body) auto

lemma get_field_defined:
  "body \<noteq> JUndefined \<Longrightarrow> body \<noteq> JNull \<Longrightarrow> \<exists>v. get_field body k = Inr v"
  by (cases body) auto

section \<open>Properties: creating an order\<close>

lemma create_order_falsy_amount:
  assumes "get_field body ''amount'' = Inr amount" and "\<not> truthy amount"
  shows "create_order P body = ([], invalid_amount)"
proof -
  obtain c where c: "get_field body ''currency'' = Inr c"
    using get_field_other [OF assms(1)] by blast
  obtain r where r: "get_field body ''receipt'' = Inr r"
    using get_field_other [OF assms(1)] by blast
  show ?thesis
    using assms c r by (simp add: create_order_def create_order_try_def)
qed

lemma create_order_le_zero:
  assumes "get_field body ''amount'' = Inr amount"
    and "to_number P amount = Inr n" and "js_le n (Fin 0)"
  shows "create_order P body = ([], invalid_amount)"
proof -
  obtain c where c: "get_field body ''currency'' = Inr c"
    using get_field_other [OF assms(1)] by blast
  obtain r where r: "get_field body ''receipt'' = Inr r"
    using get_field_other [OF assms(1)] by blast
  show ?thesis
    using assms c r by (simp add: create_order_def create_order_try_def)
qed

text \<open>
  C4. A body whose \<open>amount\<close> is missing, or whose \<open>amount <= 0\<close> holds, is answered with
  status 400 and \<open>{success: false, error: "Invalid amount"}\<close>, and nothing is sent to the
  gateway (the handler has no effect at all).
\<close>

theorem create_order_invalid_amount:
  assumes "get_field body ''amount'' = Inr amount"
    and "amount = JUndefined \<or> (to_number P amount = Inr n \<and> js_le n (Fin 0))"
  shows "create_order P body =
           ([], Json 400 (JObj [(''success'', JBool False), (''error'', JStr ''Invalid amount'')]))
         \<and> gateway_calls (fst (create_order P body)) = []"
proof -
  have "create_order P body = ([], invalid_amount)"
    using assms(2)
  proof
    assume "amount = JUndefined"
    then show ?thesis using create_order_falsy_amount [OF assms(1)] by simp
  next
    assume "to_number P amount = Inr n \<and> js_le n (Fin 0)"
    then show ?thesis using create_order_le_zero [OF assms(1)] by blast
  qed
  then show ?thesis by (simp add: invalid_amount_def)
qed

theorem create_order_invalid_amount_witness:
  "\<forall>P. create_order P (JObj [(''currency'', JStr ''INR'')]) =
         ([], Json 400 (JObj [(''success'', JBool False), (''error'', JStr ''Invalid amount'')]))
       \<and> create_order P (JObj [(''amount'', JNum (Fin (- 5)))]) =
         ([], Json 400 (JObj [(''success'', JBool False), (''error'', JStr ''Invalid amount'')]))
       \<and> create_order P (JObj [(''amount'', JNum (Fin 0))]) =
         ([], Json 400 (JObj [(''success'', JBool False), (''error'', JStr ''Invalid amount'')]))"
proof (intro allI conjI)
  fix P :: platform
  show "create_order P (JObj [(''currency'', JStr ''INR'')]) =
         ([], Json 400 (JObj [(''success'', JBool False), (''error'', JStr ''Invalid amount'')]))"
    using create_order_invalid_amount [of "JObj [(''currency'', JStr ''INR'')]" JUndefined P]
    by simp
  show "create_order P (JObj [(''amount'', JNum (Fin (- 5)))]) =
         ([], Json 400 (JObj [(''success'', JBool False), (''error'', JStr ''Invalid amount'')]))"
    using create_order_invalid_amount
            [of "JObj [(''amount'', JNum (Fin (- 5)))]" "JNum (Fin (- 5))" P "Fin (- 5)"]
    by simp
  show "create_order P (JObj [(''amount'', JNum (Fin 0))]) =
         ([], Json 400 (JObj [(''success'', JBool False), (''error'', JStr ''Invalid amount'')]))"
    using create_order_invalid_amount
            [of "JObj [(''amount'', JNum (Fin 0))]" "JNum (Fin 0)" P "Fin 0"]
    by simp
qed

lemma js_gt_not_le: "js_gt n (Fin 0) \<Longrightarrow> \<not> js_le n (Fin 0)"
  by (cases n) auto

lemma gateway_calls_place_order:
  "gateway_calls (fst (place_order P options)) = [options]"
proof (cases "orders_create P options")
  case (Inl m)
  then show ?thesis by (simp add: place_order_def)
next
  case (Inr order)
  then show ?thesis
    by (cases "get_field order ''id''") (simp_all add: place_order_def)
qed

lemma create_order_try_valid:
  assumes "get_field body ''amount'' = Inr amount"
    and "get_field body ''currency'' = Inr c"
    and "get_field body ''receipt'' = Inr r"
    and "truthy amount" and "to_number P amount = Inr n" and "\<not> js_le n (Fin 0)"
  shows "create_order_try P body =
           place_order P (order_options P n (if c = JUndefined then JStr ''INR'' else c) r)"
  using assms by (simp add: create_order_try_def)

lemma gateway_calls_append_console:
  "gateway_calls (evs @ [ConsoleError t args]) = gateway_calls evs"
  by (induction evs rule: gateway_calls.induct) simp_all

lemma gateway_calls_create_order:
  "gateway_calls (fst (create_order P body)) = gateway_calls (fst (create_order_try P body))"
proof (cases "create_order_try P body")
  case (Pair evs res)
  then show ?thesis
    by (cases res) (simp_all add: create_order_def gateway_calls_append_console)
qed

lemma create_order_gateway_call:
  assumes "get_field body ''amount'' = Inr amount"
    and "get_field body ''currency'' = Inr c"
    and "get_field body ''receipt'' = Inr r"
    and "truthy amount" and "to_number P amount = Inr n" and "\<not> js_le n (Fin 0)"
  shows "gateway_calls (fst (create_order P body)) =
           [JObj [(''amount'', JNum (js_mul n (Fin 100))),
                  (''currency'', if c = JUndefined then JStr ''INR'' else c),
                  (''receipt'',
                   if truthy r then r
                   else JStr (''receipt_'' @ number_to_string P (date_now P))),
                  (''payment_capture'', JNum (Fin 1))]]"
  by (simp only: gateway_calls_create_order create_order_try_valid [OF assms]
        gateway_calls_place_order order_options_def)

text \<open>
  C5. A request that passes the validation sends one order to the gateway: its amount is
  the supplied amount times 100, its currency the supplied one (\<open>INR\<close> when none is
  supplied), and \<open>payment_capture\<close> is 1. With \<open>{amount: 500, currency: "INR"}\<close> the
  gateway receives amount 50000 and currency \<open>INR\<close>. The product is the one of the
  language, rounded to binary64; for a whole amount it is exact while it stays below
  \<open>2^53\<close>.
\<close>

theorem create_order_amount_times_100:
  assumes "get_field body ''amount'' = Inr amount"
    and "get_field body ''currency'' = Inr c"
    and "get_field body ''receipt'' = Inr r"
    and "truthy amount" and "to_number P amount = Inr n" and "\<not> js_le n (Fin 0)"
  shows "gateway_calls (fst (create_order P body)) =
           [JObj [(''amount'', JNum (js_mul n (Fin 100))),
                  (''currency'', if c = JUndefined then JStr ''INR'' else c),
                  (''receipt'',
                   if truthy r then r
                   else JStr (''receipt_'' @ number_to_string P (date_now P))),
                  (''payment_capture'', JNum (Fin 1))]]
         \<and> gateway_calls
             (fst (create_order P (JObj [(''amount'', JNum (Fin 500)),
                                         (''currency'', JStr ''INR'')]))) =
           [JObj [(''amount'', JNum (Fin 50000)),
                  (''currency'', JStr ''INR''),
                  (''receipt'', JStr (''receipt_'' @ number_to_string P (date_now P))),
                  (''payment_capture'', JNum (Fin 1))]]
         \<and> (\<forall>k. 0 < k \<and> k * 100 < 2 ^ 53 \<longrightarrow>
                js_mul (Fin (of_nat k)) (Fin 100) = Fin (of_nat (k * 100)))"
proof (intro conjI allI impI)
  show "gateway_calls (fst (create_order P body)) =
           [JObj [(''amount'', JNum (js_mul n (Fin 100))),
                  (''currency'', if c = JUndefined then JStr ''INR'' else c),
                  (''receipt'',
                   if truthy r then r
                   else JStr (''receipt_'' @ number_to_string P (date_now P))),
                  (''payment_capture'', JNum (Fin 1))]]"
    using assms by (rule create_order_gateway_call)
  have "gateway_calls
          (fst (create_order P (JObj [(''amount'', JNum (Fin 500)),
                                      (''currency'', JStr ''INR'')]))) =
        [JObj [(''amount'', JNum (js_mul (Fin 500) (Fin 100))),
               (''currency'', if JStr ''INR'' = JUndefined then JStr ''INR'' else JStr ''INR''),
               (''receipt'',
                if truthy JUndefined then JUndefined
                else JStr (''receipt_'' @ number_to_string P (date_now P))),
               (''payment_capture'', JNum (Fin 1))]]"
    by (rule create_order_gateway_call [where amount = "JNum (Fin 500)"]) simp_all
  then show "gateway_calls
          (fst (create_order P (JObj [(''amount'', JNum (Fin 500)),
                                      (''currency'', JStr ''INR'')]))) =
        [JObj [(''amount'', JNum (Fin 50000)),
               (''currency'', JStr ''INR''),
               (''receipt'', JStr (''receipt_'' @ number_to_string P (date_now P))),
               (''payment_capture'', JNum (Fin 1))]]"
    by (simp add: fl_50000)
next
  fix k :: nat
  assume "0 < k \<and> k * 100 < 2 ^ 53"
  then show "js_mul (Fin (of_nat k)) (Fin 100) = Fin (of_nat (k * 100))"
    by (simp only: js_mul_whole_amount)
qed

theorem create_order_amount_times_100_witness:
  "\<forall>P. gateway_calls
          (fst (create_order P (JObj [(''amount'', JNum (Fin 500)),
                                      (''currency'', JStr ''USD''),
                                      (''receipt'', JStr ''r1'')]))) =
        [JObj [(''amount'', JNum (Fin 50000)),
               (''currency'', JStr ''USD''),
               (''receipt'', JStr ''r1''),
               (''payment_capture'', JNum (Fin 1))]]"
proof
  fix P :: platform
  show "gateway_calls
          (fst (create_order P (JObj [(''amount'', JNum (Fin 500)),
                                      (''currency'', JStr ''USD''),
                                      (''receipt'', JStr ''r1'')]))) =
        [JObj [(''amount'', JNum (Fin 50000)),
               (''currency'', JStr ''USD''),
               (''receipt'', JStr ''r1''),
               (''payment_capture'', JNum (Fin 1))]]"
    using create_order_amount_times_100
      [of "JObj [(''amount'', JNum (Fin 500)), (''currency'', JStr ''USD''),
                 (''receipt'', JStr ''r1'')]"
          "JNum (Fin 500)" "JStr ''USD''" "JStr ''r1''" P "Fin 500", THEN conjunct1]
    by (simp add: fl_50000)
qed


text \<open>
  C9. Nothing tests that \<open>amount\<close> is an integer, or a number at all: whatever is truthy
  and greater than 0 is sent on as \<open>amount * 100\<close>, not rounded to an integer. 0.5 becomes
  50, 0.005 becomes 0.5, and \<open>true\<close> becomes 100.
\<close>

theorem create_order_no_integrality_check:
  assumes "get_field body ''amount'' = Inr amount"
    and "get_field body ''currency'' = Inr c"
    and "get_field body ''receipt'' = Inr r"
    and "truthy amount" and "to_number P amount = Inr n" and "js_gt n (Fin 0)"
  shows "gateway_calls (fst (create_order P body)) =
           [JObj [(''amount'', JNum (js_mul n (Fin 100))),
                  (''currency'', if c = JUndefined then JStr ''INR'' else c),
                  (''receipt'',
                   if truthy r then r
                   else JStr (''receipt_'' @ number_to_string P (date_now P))),
                  (''payment_capture'', JNum (Fin 1))]]
         \<and> js_mul (Fin (1 / 2)) (Fin 100) = Fin 50
         \<and> fl (5 / 1000) = Fin (5764607523034235 / 2 ^ 60)
         \<and> js_mul (Fin (5764607523034235 / 2 ^ 60)) (Fin 100) = Fin (1 / 2)
         \<and> to_number P (JBool True) = Inr (Fin 1)
         \<and> js_mul (Fin 1) (Fin 100) = Fin 100"
proof (intro conjI)
  have "\<not> js_le n (Fin 0)"
    using assms(6) by (rule js_gt_not_le)
  with assms(1-5)
  show "gateway_calls (fst (create_order P body)) =
           [JObj [(''amount'', JNum (js_mul n (Fin 100))),
                  (''currency'', if c = JUndefined then JStr ''INR'' else c),
                  (''receipt'',
                   if truthy r then r
                   else JStr (''receipt_'' @ number_to_string P (date_now P))),
                  (''payment_capture'', JNum (Fin 1))]]"
    by (rule create_order_gateway_call)
  show "js_mul (Fin (1 / 2)) (Fin 100) = Fin 50"
    by (simp add: fl_50)
  show "fl (5 / 1000) = Fin (5764607523034235 / 2 ^ 60)"
    by (rule fl_0005)
  show "js_mul (Fin (5764607523034235 / 2 ^ 60)) (Fin 100) = Fin (1 / 2)"
    using fl_0005_times_100 by simp
  show "to_number P (JBool True) = Inr (Fin 1)"
    by simp
  show "js_mul (Fin 1) (Fin 100) = Fin 100"
    by (simp add: fl_100)
qed

theorem create_order_no_integrality_check_witness:
  "\<forall>P. gateway_calls (fst (create_order P (JObj [(''amount'', JNum (Fin (1 / 2)))]))) =
          [JObj [(''amount'', JNum (Fin 50)),
                 (''currency'', JStr ''INR''),
                 (''receipt'', JStr (''receipt_'' @ number_to_string P (date_now P))),
                 (''payment_capture'', JNum (Fin 1))]]
      \<and> gateway_calls
           (fst (create_order P (JObj [(''amount'', JNum (Fin (5764607523034235 / 2 ^ 60)))]))) =
          [JObj [(''amount'', JNum (Fin (1 / 2))),
                 (''currency'', JStr ''INR''),
                 (''receipt'', JStr (''receipt_'' @ number_to_string P (date_now P))),
                 (''payment_capture'', JNum (Fin 1))]]
      \<and> gateway_calls (fst (create_order P (JObj [(''amount'', JBool True)]))) =
          [JObj [(''amount'', JNum (Fin 100)),
                 (''currency'', JStr ''INR''),
                 (''receipt'', JStr (''receipt_'' @ number_to_string P (date_now P))),
                 (''payment_capture'', JNum (Fin 1))]]"
proof (intro allI conjI)
  fix P :: platform
  show "gateway_calls (fst (create_order P (JObj [(''amount'', JNum (Fin (1 / 2)))]))) =
          [JObj [(''amount'', JNum (Fin 50)),
                 (''currency'', JStr ''INR''),
                 (''receipt'', JStr (''receipt_'' @ number_to_string P (date_now P))),
                 (''payment_capture'', JNum (Fin 1))]]"
    using create_order_no_integrality_check
      [of "JObj [(''amount'', JNum (Fin (1 / 2)))]" "JNum (Fin (1 / 2))"
          JUndefined JUndefined P "Fin (1 / 2)"]
    by (simp add: fl_50)
  show "gateway_calls
           (fst (create_order P (JObj [(''amount'', JNum (Fin (5764607523034235 / 2 ^ 60)))]))) =
          [JObj [(''amount'', JNum (Fin (1 / 2))),
                 (''currency'', JStr ''INR''),
                 (''receipt'', JStr (''receipt_'' @ number_to_string P (date_now P))),
                 (''payment_capture'', JNum (Fin 1))]]"
    using create_order_no_integrality_check
      [of "JObj [(''amount'', JNum (Fin (5764607523034235 / 2 ^ 60)))]"
          "JNum (Fin (5764607523034235 / 2 ^ 60))"
          JUndefined JUndefined P "Fin (5764607523034235 / 2 ^ 60)"]
      fl_0005_times_100
    by simp
  show "gateway_calls (fst (create_order P (JObj [(''amount'', JBool True)]))) =
          [JObj [(''amount'', JNum (Fin 100)),
                 (''currency'', JStr ''INR''),
                 (''receipt'', JStr (''receipt_'' @ number_to_string P (date_now P))),
                 (''payment_capture'', JNum (Fin 1))]]"
    using create_order_no_integrality_check
      [of "JObj [(''amount'', JBool True)]" "JBool True" JUndefined JUndefined P "Fin 1"]
    by (simp add: fl_100)
qed

section \<open>Properties: verifying a payment\<close>

lemma verify_payment_falsy_field:
  assumes "get_field body ''razorpay_order_id'' = Inr a"
    and "get_field body ''razorpay_payment_id'' = Inr b"
    and "get_field body ''razorpay_signature'' = Inr c"
    and "\<not> truthy a \<or> \<not> truthy b \<or> \<not> truthy c"
  shows "verify_payment P body = ([], missing_parameters)"
  using assms by (auto simp add: verify_payment_def verify_payment_try_def)

lemma verify_payment_some_field_falsy:
  assumes "body \<noteq> JUndefined" and "body \<noteq> JNull"
    and "k \<in> set verification_fields" and "get_field body k = Inr v" and "\<not> truthy v"
  shows "verify_payment P body = ([], missing_parameters)"
proof -
  obtain a where a: "get_field body ''razorpay_order_id'' = Inr a"
    using get_field_defined [OF assms(1,2)] by blast
  obtain b where b: "get_field body ''razorpay_payment_id'' = Inr b"
    using get_field_defined [OF assms(1,2)] by blast
  obtain c where c: "get_field body ''razorpay_signature'' = Inr c"
    using get_field_defined [OF assms(1,2)] by blast
  have "\<not> truthy a \<or> \<not> truthy b \<or> \<not> truthy c"
    using assms(3-5) a b c by (auto simp add: verification_fields_def)
  then show ?thesis
    using verify_payment_falsy_field [OF a b c] by blast
qed

text \<open>
  C6. When one of the three fields is missing from the body, the answer is status 400
  with \<open>success: false\<close> and the text for missing parameters, and no hash is computed
  (the handler has no effect at all).
\<close>

theorem verify_payment_missing_field:
  assumes "body \<noteq> JUndefined" and "body \<noteq> JNull"
    and "\<exists>k \<in> set verification_fields. get_field body k = Inr JUndefined"
  shows "verify_payment P body =
           ([], Json 400 (JObj [(''success'', JBool False),
                                (''error'', JStr ''Missing payment verification parameters'')]))
         \<and> hmac_calls (fst (verify_payment P body)) = []"
proof -
  obtain k where "k \<in> set verification_fields" and "get_field body k = Inr JUndefined"
    using assms(3) by blast
  then have "verify_payment P body = ([], missing_parameters)"
    using verify_payment_some_field_falsy [OF assms(1,2)] by simp
  then show ?thesis by (simp add: missing_parameters_def)
qed

theorem verify_payment_missing_field_witness:
  "\<forall>P. verify_payment P (JObj [(''razorpay_order_id'', JStr ''order_abc''),
                               (''razorpay_payment_id'', JStr ''pay_xyz'')]) =
         ([], Json 400 (JObj [(''success'', JBool False),
                              (''error'', JStr ''Missing payment verification parameters'')]))"
proof
  fix P :: platform
  show "verify_payment P (JObj [(''razorpay_order_id'', JStr ''order_abc''),
                               (''razorpay_payment_id'', JStr ''pay_xyz'')]) =
         ([], Json 400 (JObj [(''success'', JBool False),
                              (''error'', JStr ''Missing payment verification parameters'')]))"
    using verify_payment_missing_field
      [of "JObj [(''razorpay_order_id'', JStr ''order_abc''),
                 (''razorpay_payment_id'', JStr ''pay_xyz'')]" P]
    by (simp add: verification_fields_def)
qed

text \<open>
  C10. The three fields are tested for truthiness, not for presence: a body in which one
  of them is falsy, the empty string in particular, is answered as one with missing
  parameters, and no hash is computed or compared.
\<close>

theorem verify_payment_falsy_is_missing:
  assumes "body \<noteq> JUndefined" and "body \<noteq> JNull"
    and "\<exists>k \<in> set verification_fields. \<exists>v. get_field body k = Inr v \<and> \<not> truthy v"
  shows "\<not> truthy (JStr '''')
         \<and> verify_payment P body =
           ([], Json 400 (JObj [(''success'', JBool False),
                                (''error'', JStr ''Missing payment verification parameters'')]))
         \<and> hmac_calls (fst (verify_payment P body)) = []"
proof -
  obtain k v where "k \<in> set verification_fields" and "get_field body k = Inr v"
    and "\<not> truthy v"
    using assms(3) by blast
  then have "verify_payment P body = ([], missing_parameters)"
    by (rule verify_payment_some_field_falsy [OF assms(1,2)])
  then show ?thesis by (simp add: missing_parameters_def)
qed

theorem verify_payment_falsy_is_missing_witness:
  "\<forall>P. verify_payment P (JObj [(''razorpay_order_id'', JStr ''order_abc''),
                               (''razorpay_payment_id'', JStr ''pay_xyz''),
                               (''razorpay_signature'', JStr '''')]) =
         ([], Json 400 (JObj [(''success'', JBool False),
                              (''error'', JStr ''Missing payment verification parameters'')]))"
proof
  fix P :: platform
  show "verify_payment P (JObj [(''razorpay_order_id'', JStr ''order_abc''),
                               (''razorpay_payment_id'', JStr ''pay_xyz''),
                               (''razorpay_signature'', JStr '''')]) =
         ([], Json 400 (JObj [(''success'', JBool False),
                              (''error'', JStr ''Missing payment verification parameters'')]))"
    using verify_payment_falsy_is_missing
      [of "JObj [(''razorpay_order_id'', JStr ''order_abc''),
                 (''razorpay_payment_id'', JStr ''pay_xyz''),
                 (''razorpay_signature'', JStr '''')]" P]
    by (simp add: verification_fields_def)
qed


lemma verify_payment_decided:
  assumes "get_field body ''razorpay_order_id'' = Inr oid"
    and "get_field body ''razorpay_payment_id'' = Inr pid"
    and "get_field body ''razorpay_signature'' = Inr sg"
    and "truthy oid" and "truthy pid" and "truthy sg"
    and "sign_of P oid pid = Inr sign"
    and "process_env P ''RAZOR_PAY_KEY_SECRET'' = Some secret"
  shows "verify_payment P body =
           (if sg = JStr (hmac_sha256_hex P secret sign)
            then ([CreateHmac secret sign,
                   ConsoleLog (check_mark @ '' Payment verified successfully:'') [LVal pid]],
                  payment_verified pid oid)
            else ([CreateHmac secret sign,
                   ConsoleError
                     (cross_mark @ '' Payment verification failed - signature mismatch'') []],
                  invalid_signature))"
  using assms by (simp add: verify_payment_def verify_payment_try_def)

lemma sign_of_strings: "sign_of P (JStr a) (JStr b) = Inr (a @ ''|'' @ b)"
  by (simp add: sign_of_def)

lemma sign_of_converted:
  assumes "to_string (number_to_string P) oid = Inr a"
    and "to_string (number_to_string P) pid = Inr b"
  shows "sign_of P oid pid = Inr (a @ ''|'' @ b)"
  using assms by (simp add: sign_of_def)

lemma to_string_of_string: "to_string n2s v = Inr a \<Longrightarrow> v = JStr s \<Longrightarrow> a = s"
  by simp

text \<open>
  C1. Let the three fields be non-empty, \<open>a\<close> and \<open>b\<close> the order id and the payment id as
  strings (the ids themselves when they are strings), and \<open>secret\<close> the key of the
  environment. The handler computes one keyed hash, of the message \<open>a + "|" + b\<close> under
  \<open>secret\<close>. It answers 200 with \<open>success: true\<close> and the two ids exactly when the signature
  is that hash, and 400 with \<open>success: false\<close> and \<open>Invalid payment signature\<close> exactly when
  the signature is anything else. The verdict is a function of the three fields, the key
  and the hash alone: any request and platform that agree on them get the same answer.
\<close>

theorem verify_payment_accepts_iff_signature:
  assumes "get_field body ''razorpay_order_id'' = Inr oid"
    and "get_field body ''razorpay_payment_id'' = Inr pid"
    and "get_field body ''razorpay_signature'' = Inr sg"
    and "truthy oid" and "truthy pid" and "truthy sg"
    and "to_string (number_to_string P) oid = Inr a"
    and "to_string (number_to_string P) pid = Inr b"
    and "process_env P ''RAZOR_PAY_KEY_SECRET'' = Some secret"
  shows "(snd (verify_payment P body) =
            Json 200 (JObj [(''success'', JBool True),
                            (''message'', JStr ''Payment verified successfully''),
                            (''payment_id'', pid),
                            (''order_id'', oid)])
            \<longleftrightarrow> sg = JStr (hmac_sha256_hex P secret (a @ ''|'' @ b)))
         \<and> (snd (verify_payment P body) =
            Json 400 (JObj [(''success'', JBool False),
                            (''error'', JStr ''Invalid payment signature'')])
            \<longleftrightarrow> sg \<noteq> JStr (hmac_sha256_hex P secret (a @ ''|'' @ b)))
         \<and> hmac_calls (fst (verify_payment P body)) = [(secret, a @ ''|'' @ b)]
         \<and> (\<forall>s. oid = JStr s \<longrightarrow> a = s)
         \<and> (\<forall>s. pid = JStr s \<longrightarrow> b = s)
         \<and> (\<forall>P' body'.
               get_field body' ''razorpay_order_id'' = Inr oid \<and>
               get_field body' ''razorpay_payment_id'' = Inr pid \<and>
               get_field body' ''razorpay_signature'' = Inr sg \<and>
               number_to_string P' = number_to_string P \<and>
               hmac_sha256_hex P' = hmac_sha256_hex P \<and>
               process_env P' ''RAZOR_PAY_KEY_SECRET'' = Some secret
               \<longrightarrow> verify_payment P' body' = verify_payment P body)"
proof (intro conjI allI impI)
  have sign: "sign_of P oid pid = Inr (a @ ''|'' @ b)"
    using assms(7,8) by (rule sign_of_converted)
  note decided = verify_payment_decided [OF assms(1-6) sign assms(9)]
  show "snd (verify_payment P body) =
          Json 200 (JObj [(''success'', JBool True),
                          (''message'', JStr ''Payment verified successfully''),
                          (''payment_id'', pid),
                          (''order_id'', oid)])
          \<longleftrightarrow> sg = JStr (hmac_sha256_hex P secret (a @ ''|'' @ b))"
    by (simp add: decided payment_verified_def invalid_signature_def)
  show "snd (verify_payment P body) =
          Json 400 (JObj [(''success'', JBool False),
                          (''error'', JStr ''Invalid payment signature'')])
          \<longleftrightarrow> sg \<noteq> JStr (hmac_sha256_hex P secret (a @ ''|'' @ b))"
    by (simp add: decided payment_verified_def invalid_signature_def)
  show "hmac_calls (fst (verify_payment P body)) = [(secret, a @ ''|'' @ b)]"
    by (simp add: decided)
next
  fix s
  assume "oid = JStr s"
  with assms(7) show "a = s" by (rule to_string_of_string)
next
  fix s
  assume "pid = JStr s"
  with assms(8) show "b = s" by (rule to_string_of_string)
next
  fix P' :: platform and body' :: jsval
  assume same:
    "get_field body' ''razorpay_order_id'' = Inr oid \<and>
     get_field body' ''razorpay_payment_id'' = Inr pid \<and>
     get_field body' ''razorpay_signature'' = Inr sg \<and>
     number_to_string P' = number_to_string P \<and>
     hmac_sha256_hex P' = hmac_sha256_hex P \<and>
     process_env P' ''RAZOR_PAY_KEY_SECRET'' = Some secret"
  then have n2s: "number_to_string P' = number_to_string P"
    by simp
  have sign: "sign_of P oid pid = Inr (a @ ''|'' @ b)"
    using assms(7,8) by (rule sign_of_converted)
  have sign': "sign_of P' oid pid = Inr (a @ ''|'' @ b)"
    using assms(7,8) by (intro sign_of_converted) (simp_all only: n2s)
  have "verify_payment P' body' =
          (if sg = JStr (hmac_sha256_hex P' secret (a @ ''|'' @ b))
           then ([CreateHmac secret (a @ ''|'' @ b),
                  ConsoleLog (check_mark @ '' Payment verified successfully:'') [LVal pid]],
                 payment_verified pid oid)
           else ([CreateHmac secret (a @ ''|'' @ b),
                  ConsoleError
                    (cross_mark @ '' Payment verification failed - signature mismatch'') []],
                 invalid_signature))"
    using same assms(4-6) sign' by (intro verify_payment_decided) simp_all
  then show "verify_payment P' body' = verify_payment P body"
    using same verify_payment_decided [OF assms(1-6) sign assms(9)] by simp
qed

text \<open>
  The theorem on the sample platform, whose hash of \<open>order_abc|pay_xyz\<close> under \<open>secret\<close>
  is the text \<open>hmac:secret:order_abc|pay_xyz\<close>: that signature is verified; the same text
  with its last character changed is rejected; and so is the right signature of this
  order when it comes with another order and payment.
\<close>

theorem verify_payment_accepts_iff_signature_witness:
  "snd (verify_payment sample_platform
          (JObj [(''razorpay_order_id'', JStr ''order_abc''),
                 (''razorpay_payment_id'', JStr ''pay_xyz''),
                 (''razorpay_signature'', JStr ''hmac:secret:order_abc|pay_xyz'')])) =
     Json 200 (JObj [(''success'', JBool True),
                     (''message'', JStr ''Payment verified successfully''),
                     (''payment_id'', JStr ''pay_xyz''),
                     (''order_id'', JStr ''order_abc'')])
   \<and> snd (verify_payment sample_platform
          (JObj [(''razorpay_order_id'', JStr ''order_abc''),
                 (''razorpay_payment_id'', JStr ''pay_xyz''),
                 (''razorpay_signature'', JStr ''hmac:secret:order_abc|pay_xyZ'')])) =
     Json 400 (JObj [(''success'', JBool False),
                     (''error'', JStr ''Invalid payment signature'')])
   \<and> snd (verify_payment sample_platform
          (JObj [(''razorpay_order_id'', JStr ''order_OTHER''),
                 (''razorpay_payment_id'', JStr ''pay_OTHER''),
                 (''razorpay_signature'', JStr ''hmac:secret:order_abc|pay_xyz'')])) =
     Json 400 (JObj [(''success'', JBool False),
                     (''error'', JStr ''Invalid payment signature'')])
   \<and> hmac_calls (fst (verify_payment sample_platform
          (JObj [(''razorpay_order_id'', JStr ''order_abc''),
                 (''razorpay_payment_id'', JStr ''pay_xyz''),
                 (''razorpay_signature'', JStr ''hmac:secret:order_abc|pay_xyz'')]))) =
     [(''secret'', ''order_abc|pay_xyz'')]"
proof (intro conjI)
  have key: "process_env sample_platform ''RAZOR_PAY_KEY_SECRET'' = Some ''secret''"
    by (simp add: sample_platform_def)
  have mac: "hmac_sha256_hex sample_platform ''secret'' m = ''hmac:secret:'' @ m" for m
    by (simp add: sample_platform_def)
  let ?good = "JObj [(''razorpay_order_id'', JStr ''order_abc''),
                     (''razorpay_payment_id'', JStr ''pay_xyz''),
                     (''razorpay_signature'', JStr ''hmac:secret:order_abc|pay_xyz'')]"
  have "snd (verify_payment sample_platform ?good) =
          Json 200 (JObj [(''success'', JBool True),
                          (''message'', JStr ''Payment verified successfully''),
                          (''payment_id'', JStr ''pay_xyz''),
                          (''order_id'', JStr ''order_abc'')])
        \<longleftrightarrow> JStr ''hmac:secret:order_abc|pay_xyz'' =
            JStr (hmac_sha256_hex sample_platform ''secret'' (''order_abc'' @ ''|'' @ ''pay_xyz''))"
    by (rule verify_payment_accepts_iff_signature
          [of ?good "JStr ''order_abc''" "JStr ''pay_xyz''" "JStr ''hmac:secret:order_abc|pay_xyz''"
              sample_platform "''order_abc''" "''pay_xyz''" "''secret''", THEN conjunct1])
       (simp_all add: key)
  then show "snd (verify_payment sample_platform ?good) =
          Json 200 (JObj [(''success'', JBool True),
                          (''message'', JStr ''Payment verified successfully''),
                          (''payment_id'', JStr ''pay_xyz''),
                          (''order_id'', JStr ''order_abc'')])"
    by (simp add: mac)
  have "hmac_calls (fst (verify_payment sample_platform ?good)) =
          [(''secret'', ''order_abc'' @ ''|'' @ ''pay_xyz'')]"
    by (rule verify_payment_accepts_iff_signature
          [of ?good "JStr ''order_abc''" "JStr ''pay_xyz''" "JStr ''hmac:secret:order_abc|pay_xyz''"
              sample_platform "''order_abc''" "''pay_xyz''" "''secret''",
           THEN conjunct2, THEN conjunct2, THEN conjunct1])
       (simp_all add: key)
  then show "hmac_calls (fst (verify_payment sample_platform ?good)) =
          [(''secret'', ''order_abc|pay_xyz'')]"
    by simp
  let ?tampered = "JObj [(''razorpay_order_id'', JStr ''order_abc''),
                         (''razorpay_payment_id'', JStr ''pay_xyz''),
                         (''razorpay_signature'', JStr ''hmac:secret:order_abc|pay_xyZ'')]"
  have "snd (verify_payment sample_platform ?tampered) =
          Json 400 (JObj [(''success'', JBool False),
                          (''error'', JStr ''Invalid payment signature'')])
        \<longleftrightarrow> JStr ''hmac:secret:order_abc|pay_xyZ'' \<noteq>
            JStr (hmac_sha256_hex sample_platform ''secret'' (''order_abc'' @ ''|'' @ ''pay_xyz''))"
    by (rule verify_payment_accepts_iff_signature
          [of ?tampered "JStr ''order_abc''" "JStr ''pay_xyz''"
              "JStr ''hmac:secret:order_abc|pay_xyZ''"
              sample_platform "''order_abc''" "''pay_xyz''" "''secret''",
           THEN conjunct2, THEN conjunct1])
       (simp_all add: key)
  then show "snd (verify_payment sample_platform ?tampered) =
          Json 400 (JObj [(''success'', JBool False),
                          (''error'', JStr ''Invalid payment signature'')])"
    by (simp add: mac)
  let ?replayed = "JObj [(''razorpay_order_id'', JStr ''order_OTHER''),
                         (''razorpay_payment_id'', JStr ''pay_OTHER''),
                         (''razorpay_signature'', JStr ''hmac:secret:order_abc|pay_xyz'')]"
  have "snd (verify_payment sample_platform ?replayed) =
          Json 400 (JObj [(''success'', JBool False),
                          (''error'', JStr ''Invalid payment signature'')])
        \<longleftrightarrow> JStr ''hmac:secret:order_abc|pay_xyz'' \<noteq>
            JStr (hmac_sha256_hex sample_platform ''secret'' (''order_OTHER'' @ ''|'' @ ''pay_OTHER''))"
    by (rule verify_payment_accepts_iff_signature
          [of ?replayed "JStr ''order_OTHER''" "JStr ''pay_OTHER''"
              "JStr ''hmac:secret:order_abc|pay_xyz''"
              sample_platform "''order_OTHER''" "''pay_OTHER''" "''secret''",
           THEN conjunct2, THEN conjunct1])
       (simp_all add: key)
  then show "snd (verify_payment sample_platform ?replayed) =
          Json 400 (JObj [(''success'', JBool False),
                          (''error'', JStr ''Invalid payment signature'')])"
    by (simp add: mac)
qed

text \<open>
  The handler reads the names \<open>razorpay_order_id\<close>, \<open>razorpay_payment_id\<close> and
  \<open>razorpay_signature\<close> only: a body that says \<open>orderId\<close>, \<open>paymentId\<close> and \<open>signature\<close>
  is one with missing parameters, whatever the platform and the three values.
\<close>

lemma verify_payment_other_names:
  "verify_payment P (JObj [(''orderId'', a), (''paymentId'', b), (''signature'', c)]) =
     ([], missing_parameters)"
  by (simp add: verify_payment_def verify_payment_try_def)

text \<open>
  C2, as the specification states it: a body with the properties \<open>orderId\<close>, \<open>paymentId\<close>
  and \<open>signature\<close>. The handler reads none of these names, finds its three fields missing
  and answers 400, not the 200 of the scenario.
\<close>

theorem verify_payment_scenario_counterexample:
  "snd (verify_payment sample_platform
          (JObj [(''orderId'', JStr ''order_abc''),
                 (''paymentId'', JStr ''pay_xyz''),
                 (''signature'',
                  JStr (hmac_sha256_hex sample_platform ''secret'' ''order_abc|pay_xyz''))])) =
     Json 400 (JObj [(''success'', JBool False),
                     (''error'', JStr ''Missing payment verification parameters'')])
   \<and> snd (verify_payment sample_platform
          (JObj [(''orderId'', JStr ''order_abc''),
                 (''paymentId'', JStr ''pay_xyz''),
                 (''signature'',
                  JStr (hmac_sha256_hex sample_platform ''secret'' ''order_abc|pay_xyz''))])) \<noteq>
     Json 200 (JObj [(''success'', JBool True),
                     (''paymentId'', JStr ''pay_xyz''),
                     (''orderId'', JStr ''order_abc'')])"
  by (simp add: verify_payment_def verify_payment_try_def missing_parameters_def)

text \<open>
  C2, amended: the body carries \<open>razorpay_order_id\<close>, \<open>razorpay_payment_id\<close> and
  \<open>razorpay_signature\<close>, the signature being the hex HMAC-SHA256 of \<open>order_abc|pay_xyz\<close>
  under the secret key of the environment. The answer is status 200 with \<open>success: true\<close>,
  a \<open>message\<close>, \<open>payment_id: "pay_xyz"\<close> and \<open>order_id: "order_abc"\<close>. (A hex digest
  is never the empty string; the hash being a parameter here, that is said.)
\<close>

theorem verify_payment_scenario:
  assumes "process_env P ''RAZOR_PAY_KEY_SECRET'' = Some secret"
    and "hmac_sha256_hex P secret ''order_abc|pay_xyz'' \<noteq> []"
  shows "snd (verify_payment P
                (JObj [(''razorpay_order_id'', JStr ''order_abc''),
                       (''razorpay_payment_id'', JStr ''pay_xyz''),
                       (''razorpay_signature'',
                        JStr (hmac_sha256_hex P secret ''order_abc|pay_xyz''))])) =
         Json 200 (JObj [(''success'', JBool True),
                         (''message'', JStr ''Payment verified successfully''),
                         (''payment_id'', JStr ''pay_xyz''),
                         (''order_id'', JStr ''order_abc'')])"
proof -
  have "verify_payment P
          (JObj [(''razorpay_order_id'', JStr ''order_abc''),
                 (''razorpay_payment_id'', JStr ''pay_xyz''),
                 (''razorpay_signature'',
                  JStr (hmac_sha256_hex P secret ''order_abc|pay_xyz''))]) =
        (if JStr (hmac_sha256_hex P secret ''order_abc|pay_xyz'') =
            JStr (hmac_sha256_hex P secret ''order_abc|pay_xyz'')
         then ([CreateHmac secret ''order_abc|pay_xyz'',
                ConsoleLog (check_mark @ '' Payment verified successfully:'')
                  [LVal (JStr ''pay_xyz'')]],
               payment_verified (JStr ''pay_xyz'') (JStr ''order_abc''))
         else ([CreateHmac secret ''order_abc|pay_xyz'',
                ConsoleError
                  (cross_mark @ '' Payment verification failed - signature mismatch'') []],
               invalid_signature))"
    using assms by (intro verify_payment_decided) (simp_all add: sign_of_strings)
  then show ?thesis by (simp add: payment_verified_def)
qed

theorem verify_payment_scenario_witness:
  "snd (verify_payment sample_platform
          (JObj [(''razorpay_order_id'', JStr ''order_abc''),
                 (''razorpay_payment_id'', JStr ''pay_xyz''),
                 (''razorpay_signature'',
                  JStr (hmac_sha256_hex sample_platform ''secret'' ''order_abc|pay_xyz''))])) =
   Json 200 (JObj [(''success'', JBool True),
                   (''message'', JStr ''Payment verified successfully''),
                   (''payment_id'', JStr ''pay_xyz''),
                   (''order_id'', JStr ''order_abc'')])"
  using verify_payment_scenario [of sample_platform "''secret''"]
  by (simp add: sample_platform_def)


section \<open>Properties: start of the process\<close>

lemma missingEnvVars_iff:
  "name \<in> set (missingEnvVars env) \<longleftrightarrow> name \<in> set requiredEnvVars \<and> \<not> env_truthy (env name)"
  by (simp add: missingEnvVars_def)

lemma startup_missing:
  assumes "missingEnvVars env \<noteq> []"
  shows "startup env mongo_create =
           [ConsoleError
              (cross_mark @ '' Missing required environment variables: '' @
               join '', '' (missingEnvVars env)) [],
            ConsoleError ''Please set these variables in your .env file'' [],
            ProcessExit 1]"
  using assms by (simp add: startup_def)

text \<open>The server listens only when every required variable is set and not empty.\<close>

lemma startup_listen_configured:
  assumes "Listen port \<in> set (startup env mongo_create)"
    and "name \<in> set requiredEnvVars"
  shows "env_truthy (env name)"
proof (rule ccontr)
  assume "\<not> env_truthy (env name)"
  then have "name \<in> set (missingEnvVars env)"
    using assms(2) by (simp add: missingEnvVars_iff)
  then have "missingEnvVars env \<noteq> []"
    by auto
  then show False
    using assms(1) by (simp add: startup_missing)
qed

text \<open>
  C3. When a required variable is absent, the process writes the list of all missing
  names (every absent one is in it, and only required names that are unset or empty),
  then exits with status 1; it never calls \<open>listen\<close>.
\<close>

theorem startup_fails_fast:
  assumes "\<exists>name \<in> set requiredEnvVars. env name = None"
  shows "startup env mongo_create =
           [ConsoleError
              (cross_mark @ '' Missing required environment variables: '' @
               join '', '' (missingEnvVars env)) [],
            ConsoleError ''Please set these variables in your .env file'' [],
            ProcessExit 1]
         \<and> (\<forall>name \<in> set requiredEnvVars. env name = None \<longrightarrow> name \<in> set (missingEnvVars env))
         \<and> (\<forall>name \<in> set (missingEnvVars env).
               name \<in> set requiredEnvVars \<and> \<not> env_truthy (env name))
         \<and> (\<forall>port. Listen port \<notin> set (startup env mongo_create))
         \<and> requiredEnvVars =
             [''GOOGLE_CLIENT_ID'', ''GOOGLE_CLIENT_SECRET'', ''GOOGLE_CALLBACK_URL'',
              ''SESSION_SECRET'', ''RAZOR_PAY_KEY_ID'', ''RAZOR_PAY_KEY_SECRET'']"
proof (intro conjI)
  obtain name where "name \<in> set requiredEnvVars" and "env name = None"
    using assms by blast
  then have "name \<in> set (missingEnvVars env)"
    by (simp add: missingEnvVars_iff)
  then have missing: "missingEnvVars env \<noteq> []"
    by auto
  then show "startup env mongo_create =
           [ConsoleError
              (cross_mark @ '' Missing required environment variables: '' @
               join '', '' (missingEnvVars env)) [],
            ConsoleError ''Please set these variables in your .env file'' [],
            ProcessExit 1]"
    by (rule startup_missing)
  show "\<forall>port. Listen port \<notin> set (startup env mongo_create)"
    using missing by (simp add: startup_missing)
  show "\<forall>name \<in> set requiredEnvVars. env name = None \<longrightarrow> name \<in> set (missingEnvVars env)"
    by (simp add: missingEnvVars_iff)
  show "\<forall>name \<in> set (missingEnvVars env).
          name \<in> set requiredEnvVars \<and> \<not> env_truthy (env name)"
    by (simp add: missingEnvVars_iff)
  show "requiredEnvVars =
          [''GOOGLE_CLIENT_ID'', ''GOOGLE_CLIENT_SECRET'', ''GOOGLE_CALLBACK_URL'',
           ''SESSION_SECRET'', ''RAZOR_PAY_KEY_ID'', ''RAZOR_PAY_KEY_SECRET'']"
    by (simp add: requiredEnvVars_def)
qed

text \<open>With \<open>SESSION_SECRET\<close> alone missing, and with two names missing.\<close>

theorem startup_fails_fast_witness:
  "\<forall>mongo_create.
     startup (\<lambda>name. if name = ''SESSION_SECRET'' then None else Some ''x'') mongo_create =
       [ConsoleError
          (cross_mark @ '' Missing required environment variables: SESSION_SECRET'') [],
        ConsoleError ''Please set these variables in your .env file'' [],
        ProcessExit 1]
     \<and> startup (\<lambda>name. if name = ''GOOGLE_CLIENT_ID'' \<or> name = ''RAZOR_PAY_KEY_ID''
                        then None else Some ''x'') mongo_create =
       [ConsoleError
          (cross_mark @
           '' Missing required environment variables: GOOGLE_CLIENT_ID, RAZOR_PAY_KEY_ID'') [],
        ConsoleError ''Please set these variables in your .env file'' [],
        ProcessExit 1]"
proof (intro allI conjI)
  fix mongo_create :: "string \<Rightarrow> string option"
  let ?env = "\<lambda>name. if name = ''SESSION_SECRET'' then None else Some ''x''"
  have m: "missingEnvVars ?env = [''SESSION_SECRET'']"
    by (simp add: missingEnvVars_def requiredEnvVars_def)
  have "\<exists>name \<in> set requiredEnvVars. ?env name = None"
    by (simp add: requiredEnvVars_def)
  then have "startup ?env mongo_create =
       [ConsoleError
          (cross_mark @ '' Missing required environment variables: '' @
           join '', '' (missingEnvVars ?env)) [],
        ConsoleError ''Please set these variables in your .env file'' [],
        ProcessExit 1]"
    by (rule startup_fails_fast [THEN conjunct1])
  then show "startup ?env mongo_create =
       [ConsoleError
          (cross_mark @ '' Missing required environment variables: SESSION_SECRET'') [],
        ConsoleError ''Please set these variables in your .env file'' [],
        ProcessExit 1]"
    by (simp only: m join.simps) simp
  let ?env2 = "\<lambda>name. if name = ''GOOGLE_CLIENT_ID'' \<or> name = ''RAZOR_PAY_KEY_ID''
                        then None else Some ''x''"
  have m2: "missingEnvVars ?env2 = [''GOOGLE_CLIENT_ID'', ''RAZOR_PAY_KEY_ID'']"
    by (simp add: missingEnvVars_def requiredEnvVars_def)
  have "\<exists>name \<in> set requiredEnvVars. ?env2 name = None"
    by (simp add: requiredEnvVars_def)
  then have "startup ?env2 mongo_create =
       [ConsoleError
          (cross_mark @ '' Missing required environment variables: '' @
           join '', '' (missingEnvVars ?env2)) [],
        ConsoleError ''Please set these variables in your .env file'' [],
        ProcessExit 1]"
    by (rule startup_fails_fast [THEN conjunct1])
  then show "startup ?env2 mongo_create =
       [ConsoleError
          (cross_mark @
           '' Missing required environment variables: GOOGLE_CLIENT_ID, RAZOR_PAY_KEY_ID'') [],
        ConsoleError ''Please set these variables in your .env file'' [],
        ProcessExit 1]"
    by (simp only: m2 join.simps) simp
qed

text \<open>Fully configured, outside production and without a store, the server listens.\<close>

lemma startup_configured_listens:
  "startup (\<lambda>name. if name \<in> set requiredEnvVars then Some ''x'' else None) mongo_create =
     [ConsoleWarn
        (warning_sign @ ''  WARNING: MONGO_URI not set. Sessions will use memory store.'') [],
      ConsoleWarn
        ''   This is NOT recommended for production - sessions will be lost on restart.'' [],
      ConsoleWarn (warning_sign @ ''  Using memory store for sessions (not recommended)'') [],
      ConsoleLog (check_mark @ '' Razorpay initialized successfully'') [],
      Listen (JNum (Fin 3000))]"
proof -
  have "missingEnvVars (\<lambda>name. if name \<in> set requiredEnvVars then Some ''x'' else None) = []"
    by (simp add: missingEnvVars_def)
  then show ?thesis
    by (simp add: startup_def session_store_def PORT_def requiredEnvVars_def)
qed


section \<open>Properties: the session routes\<close>

lemma deserialize_None: "user (deserialize None) = JUndefined"
  by (simp add: deserialize_def)

lemma deserialize_authenticated:
  "isAuthenticated (deserialize stored) \<longleftrightarrow> (\<exists>su. stored = Some su \<and> truthy su)"
  by (cases stored) (simp_all add: isAuthenticated_def deserialize_def)

text \<open>The server: without an identity the answer is the redirect to the landing page.\<close>

lemma get_profile_anonymous:
  "\<not> isAuthenticated req \<Longrightarrow> get_profile P req = ([], Redirect 302 ''/'')"
  by (simp add: get_profile_def)

text \<open>The server: a page is sent only to a request with an identity.\<close>

lemma get_profile_page_only_authenticated:
  assumes "snd (get_profile P req) = Send status html"
  shows "isAuthenticated req"
proof (rule ccontr)
  assume "\<not> isAuthenticated req"
  then have "get_profile P req = ([], Redirect 302 ''/'')"
    by (rule get_profile_anonymous)
  then show False using assms by simp
qed

lemma get_profile_part_001_anonymous:
  "\<not> isAuthenticated req \<Longrightarrow> get_profile_part_001 P req = Redirect 302 ''/''"
  by (simp add: get_profile_part_001_def)

text \<open>
  C7. The request of a session without identity, given to the three handlers of
  \<open>/profile\<close>: the server and \<open>part_001\<close> redirect to the landing page; \<open>index.js\<close> reads
  \<open>displayName\<close> of \<open>undefined\<close>, throws, and the answer is the error page with status 500,
  not a redirect.
\<close>

theorem get_profile_index_js_anonymous:
  "get_profile_index_js P (deserialize None) = ErrorPage 500
   \<and> get_profile P (deserialize None) = ([], Redirect 302 ''/'')
   \<and> get_profile_part_001 P (deserialize None) = Redirect 302 ''/''"
proof (intro conjI)
  show "get_profile_index_js P (deserialize None) = ErrorPage 500"
    by (simp add: get_profile_index_js_def profile_html_index_js_def deserialize_None)
  have "\<not> isAuthenticated (deserialize None)"
    by (simp add: deserialize_authenticated)
  then show "get_profile P (deserialize None) = ([], Redirect 302 ''/'')"
    and "get_profile_part_001 P (deserialize None) = Redirect 302 ''/''"
    by (simp_all add: get_profile_anonymous get_profile_part_001_anonymous)
qed



end
